theory Spec2Isabelle
  imports Main
begin

section \<open>Data model of the references view (src/src/tree.ts)\<close>

text \<open>
  The file coordinates three objects: the orchestrator \<open>SymbolsTree\<close>, the
  \<open>TreeDataProviderDelegate\<close> and the \<open>TreeInputHistory\<close>. All of them run on one
  thread; an \<open>async\<close> function is cut at each \<open>await\<close> into the part that runs when
  it is called and the parts that run when the awaited promise settles. Each part is a
  function from state to state; what the awaited promise delivered is an argument of the
  part that resumes.
\<close>

type_synonym position = "nat \<times> nat"
type_synonym range = "position \<times> position"

text \<open>
  A \<open>vscode.Uri\<close> is an object of the host: \<open>uri_oid\<close> is its identity and
  \<open>uri_text\<close> stands for its components. The object keeps a cache of its file-system
  path, filled the first time its \<open>fsPath\<close> getter runs, and its \<open>toJSON\<close> carries
  an \<open>fsPath\<close> member from then on. \<open>uri_json\<close> is what \<open>toJSON\<close> yields: the
  cached path, when there is one, and the components.
\<close>

record Uri =
  uri_oid :: nat
  uri_text :: string

type_synonym uri_json = "string option \<times> string"

text \<open>
  \<open>SymbolTreeInput\<close> (declared in api.ts): \<open>oid\<close> is the identity of the object, which
  \<open>this._input !== input\<close> compares, and \<open>proto\<close> is its prototype, which
  \<open>Object.getPrototypeOf\<close> compares.
\<close>

record SymbolTreeInput =
  oid :: nat
  proto :: nat
  contextValue :: string
  title :: string
  uri :: Uri
  position :: position

text \<open>
  \<open>SymbolTreeModel\<close>: the provider is a handle of the tree data provider object,
  the navigation is given by its \<open>nearest\<close> lookup, \<open>model_dispose\<close> says whether
  \<open>typeof model.dispose === 'function'\<close>.
\<close>

record SymbolTreeModel =
  model_provider :: nat
  model_empty :: bool
  model_message :: "string option"
  model_navigation :: "(Uri \<Rightarrow> position \<Rightarrow> nat option) option"
  model_highlights :: "nat option"
  model_dispose :: bool

text \<open>What a text document answers to the three queries \<open>add\<close> makes.\<close>

record TextDocument =
  getWordRangeAtPosition :: "position \<Rightarrow> range option"
  getWordRangeAtPositionNonWs :: "position \<Rightarrow> range option"
  getText :: "range \<Rightarrow> string"

record WordAnchor =
  anchor_doc :: TextDocument
  anchor_position :: position

record HistoryItem =
  key :: string
  word :: string
  anchor :: WordAnchor
  input :: SymbolTreeInput
  description :: string

text \<open>
  The collaborators this file calls synchronously and that live elsewhere: the method
  \<open>guessedTrackedPosition\<close> of \<open>WordAnchor\<close> (utils.ts), the method \<open>with\<close> of an
  input (api.ts), \<open>JSON.stringify\<close> on the triple of the history key (it is given
  the JSON form of the uri), the text \<open>vscode.workspace.asRelativePath\<close> returns and
  \<open>String.toLocaleLowerCase\<close>.
\<close>

record host =
  guessedTrackedPosition :: "WordAnchor \<Rightarrow> position option"
  input_with :: "SymbolTreeInput \<Rightarrow> position \<Rightarrow> SymbolTreeInput"
  stringify :: "position \<Rightarrow> uri_json \<Rightarrow> string \<Rightarrow> string"
  asRelativePath :: "Uri \<Rightarrow> string"
  toLocaleLowerCase :: "string \<Rightarrow> string"

datatype 'a settled = Fulfilled 'a | Rejected string

text \<open>
  Promise objects handed to the delegate, told apart by where they were made and by a
  serial number: \<open>modelPromise.then(model => model.provider)\<close> in \<open>setInput\<close> and
  \<open>Promise.resolve(this._history)\<close> in \<open>clearInput\<close>.
\<close>

datatype promise = ModelPromise nat | HistoryPromise nat

text \<open>The provider such a promise is fulfilled with.\<close>

datatype backing = ModelProvider nat | HistoryProvider

datatype disposable = Highlights nat | ChangeListener nat | ModelDispose

record session =
  sess_input :: SymbolTreeInput
  sess_model :: SymbolTreeModel
  sess_parts :: "disposable list"

text \<open>Calls made to the host, in the order they are made.\<close>

datatype hostcall =
    IsValidRequestPosition Uri position
  | FocusView
  | Resolve nat
  | OpenTextDocument Uri
  | Reveal nat
  | VscodeOpen Uri range
  | ShowQuickPick "(string \<times> string) list"
  | HighlightsUpdate nat
  | ConsoleError string

text \<open>
  The fields of the three objects. A \<open>ContextKey\<close> (utils.ts) is
  modelled from the spec's "set/reset a named boolean/string flag": \<open>set v\<close> stores
  \<open>Some v\<close>, \<open>reset\<close> stores \<open>None\<close>. \<open>inputs\<close> is the \<open>Map\<close> of the history in
  insertion order. \<open>disposed\<close> lists the session bundles whose \<open>dispose\<close> was called.
  \<open>fsPath_cached\<close> holds the identities of the \<open>Uri\<close> objects whose path cache is
  filled.
\<close>

record state =
  ctxIsActive :: "bool option"
  ctxHasResult :: "bool option"
  ctxInputSource :: "string option"
  ctxHasHistory :: "bool option"
  inputs :: "(string \<times> HistoryItem) list"
  history_fired :: nat
  provider :: "promise option"
  sessionDispoables :: "backing option"
  delegate_fired :: nat
  tree_title :: string
  tree_message :: "string option"
  tree_visible :: bool
  navigation :: "(Uri \<Rightarrow> position \<Rightarrow> nat option) option"
  tree_input :: "SymbolTreeInput option"
  sessionDisposable :: "session option"
  disposed :: "session list"
  trace :: "hostcall list"
  next_promise :: nat
  fsPath_cached :: "nat set"

section \<open>The native Map\<close>

text \<open>
  A JavaScript \<open>Map\<close> iterates in insertion order; \<open>set\<close> on a key that is present
  replaces the value where it stands, on a new key it appends.
\<close>

definition Map_delete :: "'k \<Rightarrow> ('k \<times> 'v) list \<Rightarrow> ('k \<times> 'v) list" where
  "Map_delete k m = filter (\<lambda>e. fst e \<noteq> k) m"

fun Map_set :: "'k \<Rightarrow> 'v \<Rightarrow> ('k \<times> 'v) list \<Rightarrow> ('k \<times> 'v) list" where
  "Map_set k v [] = [(k, v)]"
| "Map_set k v (e # m) = (if fst e = k then (k, v) # m else e # Map_set k v m)"

definition Map_values :: "('k \<times> 'v) list \<Rightarrow> 'v list" where
  "Map_values m = map snd m"

section \<open>TreeDataProviderDelegate\<close>

datatype error = MissingProvider | ProviderRejected string

text \<open>
  \<open>update\<close>: the synchronous part, then the two handlers attached to the promise.
  The handler of fulfilment checks that the promise is still the current one; the handler
  of rejection does not.
\<close>

definition update :: "promise \<Rightarrow> state \<Rightarrow> state" where
  "update p s =
     s\<lparr>sessionDispoables := None,
       delegate_fired := Suc (delegate_fired s),
       provider := Some p\<rparr>"

definition update_then :: "promise \<Rightarrow> backing \<Rightarrow> state \<Rightarrow> state" where
  "update_then p v s =
     (if provider s = Some p then s\<lparr>sessionDispoables := Some v\<rparr> else s)"

definition update_catch :: "string \<Rightarrow> state \<Rightarrow> state" where
  "update_catch err s = s\<lparr>provider := None, trace := trace s @ [ConsoleError err]\<rparr>"

definition update_settled :: "promise \<Rightarrow> backing settled \<Rightarrow> state \<Rightarrow> state" where
  "update_settled p out s =
     (case out of Fulfilled v \<Rightarrow> update_then p v s | Rejected err \<Rightarrow> update_catch err s)"

definition assertProvider :: "state \<Rightarrow> error + promise" where
  "assertProvider s =
     (case provider s of None \<Rightarrow> Inl MissingProvider | Some p \<Rightarrow> Inr p)"

text \<open>
  The three tree operations assert the provider and await it; \<open>settle\<close> tells how each
  promise has settled (\<open>None\<close>: not yet, and then the operation does not return). On
  fulfilment the call is forwarded to the backing provider with the same argument.
\<close>

datatype 'a forwarded = Forwarded backing 'a

definition await_provider ::
  "(promise \<Rightarrow> backing settled option) \<Rightarrow> state \<Rightarrow> 'a \<Rightarrow> (error + 'a forwarded) option" where
  "await_provider settle s x =
     (case assertProvider s of
        Inl e \<Rightarrow> Some (Inl e)
      | Inr p \<Rightarrow>
          (case settle p of
             None \<Rightarrow> None
           | Some (Rejected err) \<Rightarrow> Some (Inl (ProviderRejected err))
           | Some (Fulfilled b) \<Rightarrow> Some (Inr (Forwarded b x))))"

definition delegate_getTreeItem ::
  "(promise \<Rightarrow> backing settled option) \<Rightarrow> state \<Rightarrow> 'a \<Rightarrow> (error + 'a forwarded) option" where
  "delegate_getTreeItem settle s element = await_provider settle s element"

definition delegate_getChildren ::
  "(promise \<Rightarrow> backing settled option) \<Rightarrow> state \<Rightarrow> 'a \<Rightarrow> (error + 'a forwarded) option" where
  "delegate_getChildren settle s parent = await_provider settle s parent"

definition delegate_getParent ::
  "(promise \<Rightarrow> backing settled option) \<Rightarrow> state \<Rightarrow> 'a \<Rightarrow> (error + 'a forwarded) option" where
  "delegate_getParent settle s element = await_provider settle s element"

section \<open>SymbolsTree\<close>

definition history_size :: "state \<Rightarrow> nat" where
  "history_size s = length (inputs s)"

definition dispose_session :: "state \<Rightarrow> state" where
  "dispose_session s =
     (case sessionDisposable s of
        None \<Rightarrow> s
      | Some d \<Rightarrow> s\<lparr>disposed := disposed s @ [d]\<rparr>)"

definition clearInput :: "state \<Rightarrow> state" where
  "clearInput s =
     (let s1 = dispose_session s;
          s2 = s1\<lparr>tree_input := None,
                 ctxHasResult := Some False,
                 ctxInputSource := None,
                 tree_title := ''References'',
                 tree_message := Some (if history_size s1 = 0 then ''No results.''
                    else ''No results. Try running a previous search again:'')\<rparr>
      in update (HistoryPromise (next_promise s2))
           (s2\<lparr>next_promise := Suc (next_promise s2)\<rparr>))"

text \<open>
  \<open>setInput\<close> up to its first \<open>await\<close>: the validity check is started and nothing
  else happens.
\<close>

definition setInput :: "SymbolTreeInput \<Rightarrow> state \<Rightarrow> state" where
  "setInput inp s = s\<lparr>trace := trace s @ [IsValidRequestPosition (uri inp) (position inp)]\<rparr>"

text \<open>
  \<open>setInput\<close> from the answer of \<open>isValidRequestPosition\<close> (utils.ts; its answer is
  the argument \<open>valid\<close>) to \<open>await modelPromise\<close>.
\<close>

definition setInput_validated :: "SymbolTreeInput \<Rightarrow> bool \<Rightarrow> state \<Rightarrow> state" where
  "setInput_validated inp valid s =
     (if \<not> valid then clearInput s
      else
        let s1 = s\<lparr>ctxInputSource := Some (contextValue inp),
                   ctxIsActive := Some True,
                   ctxHasResult := Some True,
                   trace := trace s @ [FocusView]\<rparr>;
            newInputKind = (case tree_input s1 of
                              None \<Rightarrow> True
                            | Some old \<Rightarrow> proto old \<noteq> proto inp);
            s2 = dispose_session (s1\<lparr>tree_input := Some inp\<rparr>);
            s3 = s2\<lparr>tree_title := title inp,
                   tree_message := (if newInputKind then None else tree_message s2)\<rparr>;
            s4 = s3\<lparr>trace := trace s3 @ [Resolve (oid inp)]\<rparr>
        in update (ModelPromise (next_promise s4))
             (s4\<lparr>next_promise := Suc (next_promise s4)\<rparr>))"

text \<open>\<open>TreeInputHistory.add\<close> up to its \<open>await\<close>: the document is requested.\<close>

definition add :: "SymbolTreeInput \<Rightarrow> state \<Rightarrow> state" where
  "add inp s = s\<lparr>trace := trace s @ [OpenTextDocument (uri inp)]\<rparr>"

text \<open>Lines 92 to 110 of \<open>setInput\<close>: the session bundle is built and stored.\<close>

definition setInput_session :: "SymbolTreeInput \<Rightarrow> SymbolTreeModel \<Rightarrow> state \<Rightarrow> state" where
  "setInput_session inp model s =
     (let disposables =
            (case model_highlights model of None \<Rightarrow> [] | Some hl \<Rightarrow> [Highlights hl])
            @ [ChangeListener (model_provider model)]
            @ (if model_dispose model then [ModelDispose] else [])
      in s\<lparr>sessionDisposable :=
             Some \<lparr>sess_input = inp, sess_model = model, sess_parts = disposables\<rparr>\<rparr>)"

text \<open>
  \<open>setInput\<close> resumed with the model: lines 71 to 89, and on to the end when no
  \<open>reveal\<close> is awaited. When the nearest element is revealed, the function stops at
  that \<open>await\<close> and \<open>setInput_session\<close> is what runs once the reveal is done.
\<close>

definition is_current :: "state \<Rightarrow> SymbolTreeInput \<Rightarrow> bool" where
  "is_current s inp = (case tree_input s of None \<Rightarrow> False | Some cur \<Rightarrow> oid cur = oid inp)"

definition setInput_resolved :: "SymbolTreeInput \<Rightarrow> SymbolTreeModel \<Rightarrow> state \<Rightarrow> state" where
  "setInput_resolved inp model s =
     (if \<not> is_current s inp then s
      else if model_empty model then clearInput s
      else
        let s1 = add inp s;
            s2 = s1\<lparr>tree_message := model_message model,
                   navigation := model_navigation model\<rparr>;
            selection = (case model_navigation model of
                           None \<Rightarrow> None
                         | Some nearest \<Rightarrow> nearest (uri inp) (position inp))
        in (case selection of
              None \<Rightarrow> setInput_session inp model s2
            | Some sel \<Rightarrow>
                if tree_visible s2 then s2\<lparr>trace := trace s2 @ [Reveal sel]\<rparr>
                else setInput_session inp model s2))"

text \<open>
  What happens when the promise of \<open>input.resolve()\<close> settles. Fulfilled: \<open>setInput\<close>
  resumes first, then the delegate's handler runs on the derived promise (number \<open>pid\<close>).
  Rejected: \<open>await\<close> throws in \<open>setInput\<close>, which ends there, and the delegate's
  rejection handler runs.
\<close>

definition resolve_settled ::
  "SymbolTreeInput \<Rightarrow> nat \<Rightarrow> SymbolTreeModel settled \<Rightarrow> state \<Rightarrow> state" where
  "resolve_settled inp pid out s =
     (case out of
        Fulfilled model \<Rightarrow>
          update_then (ModelPromise pid) (ModelProvider (model_provider model))
            (setInput_resolved inp model s)
      | Rejected err \<Rightarrow> update_catch err s)"

text \<open>The listener on the provider's change event that the session bundle holds.\<close>

definition session_changed :: "session \<Rightarrow> state \<Rightarrow> state" where
  "session_changed d s =
     (let s1 = s\<lparr>tree_title := title (sess_input d),
                 tree_message := model_message (sess_model d)\<rparr>
      in case model_highlights (sess_model d) of
           None \<Rightarrow> s1
         | Some hl \<Rightarrow> s1\<lparr>trace := trace s1 @ [HighlightsUpdate hl]\<rparr>)"

section \<open>TreeInputHistory\<close>

definition bullet :: string where
  "bullet = [CHR 0x20, CHR 0xE2, CHR 0x80, CHR 0xA2, CHR 0x20]"

text \<open>
  The two operations on a \<open>Uri\<close> that the history performs: \<open>JSON.stringify\<close> calls
  \<open>toJSON\<close>, which reads the cache, and \<open>asRelativePath\<close> reads \<open>fsPath\<close>, which
  fills it.
\<close>

definition Uri_toJSON :: "state \<Rightarrow> Uri \<Rightarrow> uri_json" where
  "Uri_toJSON s u =
     (if uri_oid u \<in> fsPath_cached s then Some (uri_text u) else None, uri_text u)"

definition Uri_fsPath :: "Uri \<Rightarrow> state \<Rightarrow> state" where
  "Uri_fsPath u s = s\<lparr>fsPath_cached := insert (uri_oid u) (fsPath_cached s)\<rparr>"

text \<open>
  The value the constructor of \<open>HistoryItem\<close> builds; its call of \<open>asRelativePath\<close>
  is the \<open>Uri_fsPath\<close> in \<open>add_opened\<close>.
\<close>

definition new_HistoryItem ::
  "host \<Rightarrow> string \<Rightarrow> string \<Rightarrow> WordAnchor \<Rightarrow> SymbolTreeInput \<Rightarrow> HistoryItem" where
  "new_HistoryItem h k w a inp =
     \<lparr>key = k, word = w, anchor = a, input = inp,
      description = asRelativePath h (uri inp) @ bullet @ toLocaleLowerCase h (title inp)\<rparr>"

text \<open>
  The item \<open>add\<close> builds once the document \<open>doc\<close> is open. The key is made at
  line 267 from the uri as it is in state \<open>s\<close>, before the constructor runs.
\<close>

definition word_range :: "TextDocument \<Rightarrow> position \<Rightarrow> range option" where
  "word_range doc pos =
     (case getWordRangeAtPosition doc pos of
        Some r \<Rightarrow> Some r
      | None \<Rightarrow> getWordRangeAtPositionNonWs doc pos)"

definition key_start :: "SymbolTreeInput \<Rightarrow> TextDocument \<Rightarrow> position" where
  "key_start inp doc =
     (case word_range doc (position inp) of Some r \<Rightarrow> fst r | None \<Rightarrow> position inp)"

definition add_item ::
  "host \<Rightarrow> state \<Rightarrow> SymbolTreeInput \<Rightarrow> TextDocument \<Rightarrow> HistoryItem" where
  "add_item h s inp doc =
     (let anchor = \<lparr>anchor_doc = doc, anchor_position = position inp\<rparr>;
          range = word_range doc (position inp);
          word = (case range of Some r \<Rightarrow> getText doc r | None \<Rightarrow> ''???'')
      in new_HistoryItem h
           (stringify h (key_start inp doc) (Uri_toJSON s (uri inp)) (title inp))
           word anchor inp)"

definition add_opened :: "host \<Rightarrow> SymbolTreeInput \<Rightarrow> TextDocument \<Rightarrow> state \<Rightarrow> state" where
  "add_opened h inp doc s =
     (let item = add_item h s inp doc;
          s1 = Uri_fsPath (uri inp) s
      in s1\<lparr>inputs := Map_set (key item) item (Map_delete (key item) (inputs s1)),
            ctxHasHistory := Some True\<rparr>)"

definition clear :: "state \<Rightarrow> state" where
  "clear s =
     s\<lparr>inputs := [], ctxHasHistory := Some False, history_fired := Suc (history_fired s)\<rparr>"

definition tracked_position :: "host \<Rightarrow> HistoryItem \<Rightarrow> position" where
  "tracked_position h item =
     (case guessedTrackedPosition h (anchor item) of
        Some p \<Rightarrow> p
      | None \<Rightarrow> position (input item))"

definition reRunHistoryItem :: "host \<Rightarrow> HistoryItem \<Rightarrow> state \<Rightarrow> state" where
  "reRunHistoryItem h item s =
     (let s1 = s\<lparr>inputs := Map_delete (key item) (inputs s)\<rparr>;
          newInput = input_with h (input item) (tracked_position h item)
      in setInput newInput s1)"

definition showHistoryItem :: "host \<Rightarrow> HistoryItem \<Rightarrow> state \<Rightarrow> state" where
  "showHistoryItem h item s =
     (let pos = tracked_position h item
      in s\<lparr>trace := trace s @ [VscodeOpen (uri (input item)) (pos, pos)]\<rparr>)"

definition refresh :: "host \<Rightarrow> state \<Rightarrow> state" where
  "refresh h s =
     (case Map_values (inputs s) of
        [] \<Rightarrow> s
      | item # _ \<Rightarrow> reRunHistoryItem h item s)"

definition getChildren :: "state \<Rightarrow> HistoryItem list" where
  "getChildren s = rev (Map_values (inputs s))"

definition getParent :: "HistoryItem \<Rightarrow> HistoryItem option" where
  "getParent item = None"

text \<open>\<open>pickFromHistory\<close>: the quick pick is shown, and the pick resumes the handler.\<close>

definition pickFromHistory :: "state \<Rightarrow> state" where
  "pickFromHistory s =
     s\<lparr>trace := trace s
         @ [ShowQuickPick (map (\<lambda>item. (word item, description item)) (getChildren s))]\<rparr>"

definition pickFromHistory_picked :: "host \<Rightarrow> HistoryItem option \<Rightarrow> state \<Rightarrow> state" where
  "pickFromHistory_picked h pick s =
     (case pick of None \<Rightarrow> s | Some item \<Rightarrow> reRunHistoryItem h item s)"

text \<open>
  The tree item of a history entry and the commands the constructor registers. An
  argument of a command is a history item or something else.
\<close>

datatype arg = ItemArg HistoryItem | OtherArg

record Command =
  command :: string
  arguments :: "arg list"
  command_title :: string

record TreeItem =
  label :: string
  item_description :: string
  item_command :: Command
  collapsible :: bool
  item_contextValue :: string

definition getTreeItem :: "HistoryItem \<Rightarrow> TreeItem" where
  "getTreeItem item =
     \<lparr>label = word item,
      item_description = description item,
      item_command = \<lparr>command = ''_references-view.showHistoryItem'',
                       arguments = [ItemArg item],
                       command_title = ''Rerun''\<rparr>,
      collapsible = False,
      item_contextValue = ''history-item''\<rparr>"

definition executeCommand :: "host \<Rightarrow> string \<Rightarrow> arg list \<Rightarrow> state \<Rightarrow> state" where
  "executeCommand h name args s =
     (if name = ''references-view.clear'' then clearInput s
      else if name = ''references-view.clearHistory'' then clearInput (clear s)
      else if name = ''references-view.refind'' then
        (case args of ItemArg item # _ \<Rightarrow> reRunHistoryItem h item s | _ \<Rightarrow> s)
      else if name = ''references-view.refresh'' then refresh h s
      else if name = ''_references-view.showHistoryItem'' then
        (case args of ItemArg item # _ \<Rightarrow> showHistoryItem h item s | _ \<Rightarrow> s)
      else if name = ''references-view.pickFromHistory'' then pickFromHistory s
      else s)"

text \<open>Activating a tree item runs the command attached to it.\<close>

definition activate :: "host \<Rightarrow> TreeItem \<Rightarrow> state \<Rightarrow> state" where
  "activate h ti s =
     executeCommand h (command (item_command ti)) (arguments (item_command ti)) s"

section \<open>Sequences of history operations\<close>

text \<open>
  The three ways the code changes the history map: \<open>add\<close> resumed with the open
  document, the removal that \<open>_reRunHistoryItem\<close> starts with, and \<open>clear\<close>.
\<close>

datatype hist_op = Add SymbolTreeInput TextDocument | ReRun HistoryItem | ClearAll

fun apply_op :: "host \<Rightarrow> hist_op \<Rightarrow> state \<Rightarrow> state" where
  "apply_op h (Add inp doc) s = add_opened h inp doc s"
| "apply_op h (ReRun item) s = reRunHistoryItem h item s"
| "apply_op h ClearAll s = clear s"

definition run_history :: "host \<Rightarrow> hist_op list \<Rightarrow> state \<Rightarrow> state" where
  "run_history h ops s = foldl (\<lambda>s' op. apply_op h op s') s ops"

text \<open>
  What each operation does to the map, as an event: the item an \<open>add\<close> inserts (built in
  the state the \<open>add\<close> finds), the key a re-run removes, or the clearing of the map.
  \<open>history_events\<close> lists the events of a sequence of operations in the order they
  happen.
\<close>

datatype hist_event = Inserted HistoryItem | Removed string | Cleared

fun event_of :: "host \<Rightarrow> hist_op \<Rightarrow> state \<Rightarrow> hist_event" where
  "event_of h (Add inp doc) s = Inserted (add_item h s inp doc)"
| "event_of h (ReRun item) s = Removed (key item)"
| "event_of h ClearAll s = Cleared"

fun history_events :: "host \<Rightarrow> hist_op list \<Rightarrow> state \<Rightarrow> hist_event list" where
  "history_events h [] s = []"
| "history_events h (op # ops) s = event_of h op s # history_events h ops (apply_op h op s)"

text \<open>
  The spec's reading of the history, written without the map: the retained items, most
  recently added first. The events are read from the latest back to the oldest;
  \<open>seen\<close> holds the keys already decided by a later event. A key is retained when
  the latest event on it is an insertion with no clearing after it, and its item stands
  at the place of that insertion.
\<close>

fun retained_mru :: "string set \<Rightarrow> hist_event list \<Rightarrow> HistoryItem list" where
  "retained_mru seen [] = []"
| "retained_mru seen (Cleared # older) = []"
| "retained_mru seen (Removed k # older) = retained_mru (insert k seen) older"
| "retained_mru seen (Inserted item # older) =
     (if key item \<in> seen then retained_mru seen older
      else item # retained_mru (insert (key item) seen) older)"

text \<open>Every entry of the map is stored under the key of its item.\<close>

definition keyed :: "(string \<times> HistoryItem) list \<Rightarrow> bool" where
  "keyed m = list_all (\<lambda>e. key (snd e) = fst e) m"

text \<open>The "has history" flag agrees with the size of the map.\<close>

definition has_history_ok :: "state \<Rightarrow> bool" where
  "has_history_ok s = ((ctxHasHistory s = Some True) = (0 < history_size s))"

section \<open>Concrete values\<close>

text \<open>
  A host whose anchors never find their text again and whose \<open>JSON.stringify\<close> writes
  the \<open>fsPath\<close> member when the uri has one, two inputs on two \<open>Uri\<close> objects, a
  second input on the first \<open>Uri\<close> object, a document with the word \<open>foo\<close> around
  position (1, 2), and the state of the three objects right after construction, with no
  path cache filled.
\<close>

definition ex_host :: host where
  "ex_host =
     \<lparr>guessedTrackedPosition = (\<lambda>a. None),
      input_with = (\<lambda>inp pos. inp\<lparr>oid := oid inp + 100, position := pos\<rparr>),
      stringify = (\<lambda>pos j t. replicate (fst pos) (CHR ''l'') @ '','' @
                     replicate (snd pos) (CHR ''c'') @ '','' @
                     (case fst j of None \<Rightarrow> [] | Some p \<Rightarrow> ''fsPath='' @ p @ '','') @
                     snd j @ '','' @ t),
      asRelativePath = (\<lambda>u. uri_text u),
      toLocaleLowerCase = (\<lambda>t. t)\<rparr>"

definition ex_doc :: TextDocument where
  "ex_doc =
     \<lparr>getWordRangeAtPosition = (\<lambda>p. if p = (1, 2) then Some ((1, 1), (1, 4)) else None),
      getWordRangeAtPositionNonWs = (\<lambda>p. None),
      getText = (\<lambda>r. ''foo'')\<rparr>"

definition ex_fileA :: Uri where
  "ex_fileA = \<lparr>uri_oid = 10, uri_text = ''fileA''\<rparr>"

definition ex_fileB :: Uri where
  "ex_fileB = \<lparr>uri_oid = 11, uri_text = ''fileB''\<rparr>"

definition ex_A :: SymbolTreeInput where
  "ex_A = \<lparr>oid = 1, proto = 0, contextValue = ''showReferences'', title = ''References'',
           uri = ex_fileA, position = (1, 2)\<rparr>"

definition ex_A2 :: SymbolTreeInput where
  "ex_A2 = ex_A\<lparr>oid := 5\<rparr>"

definition ex_B :: SymbolTreeInput where
  "ex_B = \<lparr>oid = 2, proto = 0, contextValue = ''showReferences'', title = ''References'',
           uri = ex_fileB, position = (3, 0)\<rparr>"

definition ex_model :: SymbolTreeModel where
  "ex_model = \<lparr>model_provider = 7, model_empty = False, model_message = Some ''2 results'',
      model_navigation = None, model_highlights = None, model_dispose = False\<rparr>"

definition start_state :: state where
  "start_state =
     \<lparr>ctxIsActive = None, ctxHasResult = None, ctxInputSource = None, ctxHasHistory = None,
      inputs = [], history_fired = 0, provider = None, sessionDispoables = None,
      delegate_fired = 0, tree_title = ''References'', tree_message = None,
      tree_visible = True, navigation = None, tree_input = None, sessionDisposable = None,
      disposed = [], trace = [], next_promise = 0, fsPath_cached = {}\<rparr>"

text \<open>The state in which the path caches of both \<open>Uri\<close> objects are filled.\<close>

definition warm_state :: state where
  "warm_state = Uri_fsPath ex_fileB (Uri_fsPath ex_fileA start_state)"

text \<open>
  \<open>setInput(A)\<close> passes its check, then \<open>setInput(B)\<close> passes its check; both
  resolutions are still pending, A's on promise 0 and B's on promise 1.
\<close>

definition superseded_state :: state where
  "superseded_state =
     setInput_validated ex_B True (setInput ex_B
       (setInput_validated ex_A True (setInput ex_A start_state)))"

text \<open>A history holding the one item of input A.\<close>

definition ex_item :: HistoryItem where
  "ex_item = add_item ex_host start_state ex_A ex_doc"

definition ex_history_state :: state where
  "ex_history_state = add_opened ex_host ex_A ex_doc start_state"

section \<open>Unfolding sets\<close>

lemmas ex_defs = ex_host_def ex_doc_def ex_fileA_def ex_fileB_def ex_A_def ex_A2_def ex_B_def
  ex_model_def start_state_def warm_state_def superseded_state_def ex_item_def
  ex_history_state_def

lemmas step_defs = setInput_def setInput_validated_def clearInput_def dispose_session_def
  update_def update_then_def update_catch_def update_settled_def resolve_settled_def
  setInput_resolved_def is_current_def add_def setInput_session_def history_size_def

lemmas hist_defs = add_opened_def add_item_def new_HistoryItem_def word_range_def
  key_start_def Uri_toJSON_def Uri_fsPath_def Map_delete_def Map_values_def getChildren_def
  reRunHistoryItem_def tracked_position_def showHistoryItem_def refresh_def clear_def

section \<open>The history map\<close>

lemma Map_set_fresh: "k \<notin> fst ` set m \<Longrightarrow> Map_set k v m = m @ [(k, v)]"
  by (induction m) auto

lemma Map_set_delete: "Map_set k v (Map_delete k m) = Map_delete k m @ [(k, v)]"
  by (rule Map_set_fresh) (auto simp: Map_delete_def)

lemma Map_delete_first:
  assumes "distinct (map fst (e # m))"
  shows "Map_delete (fst e) (e # m) = m"
proof -
  have "fst e \<notin> fst ` set m" using assms by simp
  then have "\<forall>x \<in> set m. fst x \<noteq> fst e" by (metis image_eqI)
  then have "filter (\<lambda>x. fst x \<noteq> fst e) m = m" by (simp add: filter_id_conv)
  then show ?thesis by (simp add: Map_delete_def)
qed

lemma inputs_add_opened:
  "inputs (add_opened h inp doc s) =
     Map_delete (key (add_item h s inp doc)) (inputs s)
       @ [(key (add_item h s inp doc), add_item h s inp doc)]"
  by (simp add: add_opened_def Uri_fsPath_def Let_def Map_set_delete)

lemma inputs_reRun:
  "inputs (reRunHistoryItem h item s) = Map_delete (key item) (inputs s)"
  by (simp add: reRunHistoryItem_def setInput_def Let_def)

lemma inputs_clear: "inputs (clear s) = []"
  by (simp add: clear_def)

lemma keyed_delete: "keyed m \<Longrightarrow> keyed (Map_delete k m)"
  by (simp add: keyed_def Map_delete_def list_all_iff)

lemma keyed_fst: "keyed m \<Longrightarrow> map fst m = map key (map snd m)"
  by (induction m) (simp_all add: keyed_def)

lemma keyed_apply_op:
  assumes "keyed (inputs s)"
  shows "keyed (inputs (apply_op h op s))"
proof (cases op)
  case (Add inp doc)
  then show ?thesis
    using keyed_delete [OF assms, of "key (add_item h s inp doc)"]
    by (simp add: inputs_add_opened keyed_def)
next
  case (ReRun item)
  then show ?thesis by (simp add: inputs_reRun keyed_delete [OF assms])
next
  case ClearAll
  then show ?thesis by (simp add: inputs_clear keyed_def)
qed

lemma keyed_run: "keyed (inputs s) \<Longrightarrow> keyed (inputs (run_history h ops s))"
  unfolding run_history_def
  by (induction ops arbitrary: s) (simp_all add: keyed_apply_op)

lemma values_delete:
  "keyed m \<Longrightarrow> Map_values (Map_delete k m) = filter (\<lambda>item. key item \<noteq> k) (Map_values m)"
  by (induction m) (auto simp: keyed_def Map_values_def Map_delete_def)

lemma getChildren_apply_op:
  assumes "keyed (inputs s)"
  shows "getChildren (apply_op h op s) =
     (case event_of h op s of
        Inserted item \<Rightarrow> item # filter (\<lambda>i. key i \<noteq> key item) (getChildren s)
      | Removed k \<Rightarrow> filter (\<lambda>i. key i \<noteq> k) (getChildren s)
      | Cleared \<Rightarrow> [])"
proof (cases op)
  case (Add inp doc)
  have "Map_values (inputs (add_opened h inp doc s)) =
      filter (\<lambda>item. key item \<noteq> key (add_item h s inp doc)) (Map_values (inputs s))
        @ [add_item h s inp doc]"
    using values_delete [OF assms, of "key (add_item h s inp doc)"]
    by (simp add: inputs_add_opened Map_values_def)
  then show ?thesis using Add by (simp add: getChildren_def rev_filter)
next
  case (ReRun item)
  then show ?thesis
    using values_delete [OF assms, of "key item"]
    by (simp add: getChildren_def inputs_reRun rev_filter)
next
  case ClearAll
  then show ?thesis by (simp add: getChildren_def inputs_clear Map_values_def)
qed

lemma retained_mru_seen:
  "retained_mru (A \<union> B) older = filter (\<lambda>item. key item \<notin> A) (retained_mru B older)"
proof (induction older arbitrary: B)
  case Nil
  then show ?case by simp
next
  case (Cons ev older)
  show ?case
  proof (cases ev)
    case (Inserted item)
    show ?thesis
      using Cons.IH [of B] Cons.IH [of "insert (key item) B"] Inserted
      by (auto simp: insert_absorb)
  next
    case (Removed k)
    then show ?thesis using Cons.IH [of "insert k B"] by simp
  next
    case Cleared
    then show ?thesis by simp
  qed
qed

lemma retained_mru_single:
  "retained_mru {k} older = filter (\<lambda>item. key item \<noteq> k) (retained_mru {} older)"
  using retained_mru_seen [of "{k}" "{}" older] by simp

lemma retained_mru_distinct:
  "distinct (map key (retained_mru seen older))
   \<and> key ` set (retained_mru seen older) \<inter> seen = {}"
proof (induction older arbitrary: seen)
  case Nil
  then show ?case by simp
next
  case (Cons ev older)
  show ?case
  proof (cases ev)
    case (Inserted item)
    show ?thesis
      using Cons.IH [of seen] Cons.IH [of "insert (key item) seen"] Inserted
      by auto
  next
    case (Removed k)
    then show ?thesis using Cons.IH [of "insert k seen"] by auto
  next
    case Cleared
    then show ?thesis by simp
  qed
qed

lemma run_history_snoc:
  "run_history h (ops @ [op]) s = apply_op h op (run_history h ops s)"
  by (simp add: run_history_def)

lemma history_events_snoc:
  "history_events h (ops @ [op]) s =
     history_events h ops s @ [event_of h op (run_history h ops s)]"
  by (induction ops arbitrary: s) (simp_all add: run_history_def)

lemma getChildren_run:
  assumes "inputs s0 = []"
  shows "getChildren (run_history h ops s0) = retained_mru {} (rev (history_events h ops s0))"
proof (induction ops rule: rev_induct)
  case Nil
  then show ?case by (simp add: run_history_def getChildren_def Map_values_def assms)
next
  case (snoc op ops)
  have k: "keyed (inputs (run_history h ops s0))"
    by (rule keyed_run) (simp add: assms keyed_def)
  show ?case
    using getChildren_apply_op [OF k, of h op] snoc.IH
    by (cases "event_of h op (run_history h ops s0)")
       (simp_all add: run_history_snoc history_events_snoc retained_mru_single)
qed

lemma distinct_keys_run:
  assumes "inputs s0 = []"
  shows "distinct (map fst (inputs (run_history h ops s0)))"
proof -
  have k: "keyed (inputs (run_history h ops s0))"
    by (rule keyed_run) (simp add: assms keyed_def)
  have "distinct (map key (getChildren (run_history h ops s0)))"
    using getChildren_run [OF assms, of h ops]
      retained_mru_distinct [of "{}" "rev (history_events h ops s0)"] by simp
  then have "distinct (map key (map snd (inputs (run_history h ops s0))))"
    by (simp add: getChildren_def Map_values_def rev_map [symmetric])
  then show ?thesis by (simp only: keyed_fst [OF k])
qed

lemma filter_key_add_opened:
  "filter (\<lambda>e. fst e = key (add_item h s inp doc)) (inputs (add_opened h inp doc s))
     = [(key (add_item h s inp doc), add_item h s inp doc)]"
  by (simp add: inputs_add_opened Map_delete_def)

lemma add_item_key:
  "key (add_item h s inp doc)
     = stringify h (key_start inp doc) (Uri_toJSON s (uri inp)) (title inp)"
  by (simp add: add_item_def new_HistoryItem_def Let_def)

lemma cached_apply_op:
  "x \<in> fsPath_cached s \<Longrightarrow> x \<in> fsPath_cached (apply_op h op s)"
  by (cases op)
     (simp_all add: add_opened_def Uri_fsPath_def reRunHistoryItem_def setInput_def clear_def
        Let_def)

lemma cached_run:
  "x \<in> fsPath_cached s \<Longrightarrow> x \<in> fsPath_cached (run_history h ops s)"
  unfolding run_history_def
  by (induction ops arbitrary: s) (simp_all add: cached_apply_op)

text \<open>
  When the path cache of the uri is already filled at the first add, two inputs with the
  same start position, uri and title get the same key, and after the second add the map
  holds one entry under it, the second input's item, standing last in the map and first
  in \<open>getChildren\<close>.
\<close>

lemma add_same_triple_warm_cache:
  assumes "key_start i1 d1 = key_start i2 d2" and "uri i1 = uri i2" and "title i1 = title i2"
    and "uri_oid (uri i1) \<in> fsPath_cached s"
  shows "filter (\<lambda>e. fst e = key (add_item h s i1 d1))
           (inputs (add_opened h i2 d2 (run_history h ops (add_opened h i1 d1 s))))
           = [(key (add_item h s i1 d1),
               add_item h (run_history h ops (add_opened h i1 d1 s)) i2 d2)]
       \<and> hd (getChildren (add_opened h i2 d2 (run_history h ops (add_opened h i1 d1 s))))
           = add_item h (run_history h ops (add_opened h i1 d1 s)) i2 d2"
proof -
  let ?s' = "run_history h ops (add_opened h i1 d1 s)"
  have "uri_oid (uri i1) \<in> fsPath_cached (add_opened h i1 d1 s)"
    using assms(4) by (simp add: add_opened_def Uri_fsPath_def Let_def)
  then have "uri_oid (uri i1) \<in> fsPath_cached ?s'" by (rule cached_run)
  then have k: "key (add_item h ?s' i2 d2) = key (add_item h s i1 d1)"
    using assms by (simp add: add_item_key Uri_toJSON_def)
  show ?thesis
    using filter_key_add_opened [of h ?s' i2 d2]
    by (simp add: k inputs_add_opened getChildren_def Map_values_def)
qed

text \<open>
  C5. Start from an empty history and run any sequence of adds, re-run removals and
  clears. \<open>getChildren\<close> then returns exactly the retained items, most recently added
  first, and no key occurs twice among them.
\<close>

theorem getChildren_most_recent_first:
  assumes "inputs s0 = []"
  shows "getChildren (run_history h ops s0) = retained_mru {} (rev (history_events h ops s0))
         \<and> distinct (map key (getChildren (run_history h ops s0)))"
  using getChildren_run [OF assms, of h ops]
    retained_mru_distinct [of "{}" "rev (history_events h ops s0)"]
  by simp

text \<open>
  An instance of C5: A, B, A again (as another object on the same uri), the removal of A's
  first item, then A and B once more. The first adds of A and of B made their keys before
  the path caches were filled, the later ones after: what is left is B's later item, A's
  later item and B's first item, in that order.
\<close>

theorem getChildren_most_recent_first_witness:
  "inputs start_state = []
   \<and> getChildren (run_history ex_host
        [Add ex_A ex_doc, Add ex_B ex_doc, Add ex_A2 ex_doc, ReRun ex_item, Add ex_A ex_doc,
         Add ex_B ex_doc] start_state)
      = [add_item ex_host warm_state ex_B ex_doc, add_item ex_host warm_state ex_A ex_doc,
         add_item ex_host start_state ex_B ex_doc]"
proof -
  have e: "inputs start_state = []" by (simp add: start_state_def)
  show ?thesis
    using getChildren_most_recent_first [OF e, of ex_host
        "[Add ex_A ex_doc, Add ex_B ex_doc, Add ex_A2 ex_doc, ReRun ex_item, Add ex_A ex_doc,
          Add ex_B ex_doc]"]
    by (simp add: e ex_defs hist_defs setInput_def Let_def)
qed

text \<open>
  C10. The command \<open>references-view.refresh\<close> takes the first value of the map, which
  is the least recently added of the retained items (the last one of the
  most-recent-first list), and re-runs it: the item leaves the map, so that
  \<open>getChildren\<close> loses its last element and keeps the others, and \<open>setInput\<close> is
  started with \<open>input.with\<close> of the tracked position, which shows as the validity check
  of that input. On an empty history the command changes nothing.
\<close>

theorem refresh_reruns_least_recent:
  assumes "inputs s0 = []"
  shows "executeCommand h ''references-view.refresh'' args (run_history h ops s0) =
     (case rev (retained_mru {} (rev (history_events h ops s0))) of
        [] \<Rightarrow> run_history h ops s0
      | item # _ \<Rightarrow>
          setInput (input_with h (input item) (tracked_position h item))
            ((run_history h ops s0)
               \<lparr>inputs := Map_delete (key item) (inputs (run_history h ops s0))\<rparr>))
   \<and> getChildren (executeCommand h ''references-view.refresh'' args (run_history h ops s0))
       = butlast (retained_mru {} (rev (history_events h ops s0)))
   \<and> trace (executeCommand h ''references-view.refresh'' args (run_history h ops s0)) =
     (case rev (retained_mru {} (rev (history_events h ops s0))) of
        [] \<Rightarrow> trace (run_history h ops s0)
      | item # _ \<Rightarrow>
          trace (run_history h ops s0)
            @ [IsValidRequestPosition
                 (uri (input_with h (input item) (tracked_position h item)))
                 (position (input_with h (input item) (tracked_position h item)))])"
proof -
  let ?s = "run_history h ops s0"
  let ?R = "retained_mru {} (rev (history_events h ops s0))"
  have gc: "getChildren ?s = ?R" by (rule getChildren_run [OF assms])
  show ?thesis
  proof (cases "inputs ?s")
    case Nil
    then have "?R = []" using gc by (simp add: getChildren_def Map_values_def)
    then show ?thesis
      using Nil by (simp add: executeCommand_def refresh_def Map_values_def getChildren_def)
  next
    case (Cons e m)
    have k: "keyed (inputs ?s)"
      by (rule keyed_run) (simp add: assms keyed_def)
    have fe: "key (snd e) = fst e" using k Cons by (simp add: keyed_def)
    have "distinct (map fst (e # m))"
      using distinct_keys_run [OF assms, of h ops] Cons by simp
    then have del: "Map_delete (key (snd e)) (e # m) = m"
      using Map_delete_first [of e m] fe by simp
    have R: "?R = rev (map snd m) @ [snd e]"
      using gc Cons by (simp add: getChildren_def Map_values_def)
    show ?thesis
      using Cons del
      by (simp add: R executeCommand_def refresh_def Map_values_def reRunHistoryItem_def
          setInput_def getChildren_def Let_def)
  qed
qed

text \<open>
  An instance of C10: after A then B were added, refresh removes A's item although B's is
  the most recent, leaves B's entry alone in the map and starts the validity check of
  \<open>setInput\<close> for fileA at A's stored position; with no operation at all, refresh
  leaves the state as it is.
\<close>

theorem refresh_reruns_least_recent_witness:
  "inputs start_state = []
   \<and> inputs (executeCommand ex_host ''references-view.refresh'' []
        (run_history ex_host [Add ex_A ex_doc, Add ex_B ex_doc] start_state))
      = [(key (add_item ex_host start_state ex_B ex_doc),
          add_item ex_host start_state ex_B ex_doc)]
   \<and> getChildren (executeCommand ex_host ''references-view.refresh'' []
        (run_history ex_host [Add ex_A ex_doc, Add ex_B ex_doc] start_state))
      = [add_item ex_host start_state ex_B ex_doc]
   \<and> trace (executeCommand ex_host ''references-view.refresh'' []
        (run_history ex_host [Add ex_A ex_doc, Add ex_B ex_doc] start_state))
      = [IsValidRequestPosition ex_fileA (1, 2)]
   \<and> executeCommand ex_host ''references-view.refresh'' [] (run_history ex_host [] start_state)
      = run_history ex_host [] start_state"
proof -
  have e: "inputs start_state = []" by (simp add: start_state_def)
  show ?thesis
    using refresh_reruns_least_recent [OF e, of ex_host "[]"
        "[Add ex_A ex_doc, Add ex_B ex_doc]"]
      refresh_reruns_least_recent [OF e, of ex_host "[]" "[]"]
    by (simp add: e run_history_def executeCommand_def ex_defs hist_defs setInput_def
        Let_def)
qed

text \<open>
  C4. An input is added to a history whose uri has no cached path, and then a second input
  with the same start position, the same uri object and the same title (or the same input
  once more). The key of the first add is made before the constructor of
  \<open>HistoryItem\<close> reads \<open>fsPath\<close>, the key of the second after it, so the uri's JSON
  form has gained its \<open>fsPath\<close> member in between: the two keys differ and the map
  holds two entries.
\<close>

theorem same_triple_added_twice_keeps_two_entries:
  "key_start ex_A ex_doc = key_start ex_A2 ex_doc
   \<and> uri ex_A = uri ex_A2
   \<and> title ex_A = title ex_A2
   \<and> fsPath_cached start_state = {}
   \<and> history_size (add_opened ex_host ex_A2 ex_doc
        (add_opened ex_host ex_A ex_doc start_state)) = 2
   \<and> map fst (inputs (add_opened ex_host ex_A2 ex_doc
        (add_opened ex_host ex_A ex_doc start_state)))
      = [''l,c,fileA,References'', ''l,c,fsPath=fileA,fileA,References'']
   \<and> map (\<lambda>item. oid (input item)) (getChildren (add_opened ex_host ex_A2 ex_doc
        (add_opened ex_host ex_A ex_doc start_state))) = [5, 1]
   \<and> history_size (add_opened ex_host ex_A ex_doc
        (add_opened ex_host ex_A ex_doc start_state)) = 2"
  by (simp add: history_size_def ex_defs hist_defs Let_def)

text \<open>
  The flag and the size agree after \<open>add\<close> and after \<open>clear\<close>.
\<close>

lemma add_opened_has_history_ok: "has_history_ok (add_opened h inp doc s)"
  by (simp add: has_history_ok_def history_size_def inputs_add_opened)
     (simp add: add_opened_def Uri_fsPath_def Let_def)

lemma clear_has_history_ok: "has_history_ok (clear s)"
  by (simp add: has_history_ok_def history_size_def clear_def)

text \<open>
  C2. The removal in \<open>_reRunHistoryItem\<close> does not publish the flag: re-running the only
  item of a history leaves a map of size 0 with the "has history" flag still true.
\<close>

theorem reRun_breaks_has_history:
  "has_history_ok ex_history_state
   \<and> history_size (reRunHistoryItem ex_host ex_item ex_history_state) = 0
   \<and> ctxHasHistory (reRunHistoryItem ex_host ex_item ex_history_state) = Some True
   \<and> \<not> has_history_ok (reRunHistoryItem ex_host ex_item ex_history_state)"
  by (simp add: has_history_ok_def history_size_def ex_defs hist_defs setInput_def Let_def)

section \<open>The delegate\<close>

text \<open>
  C9. \<open>update\<close> returns with the promise installed and nothing logged. When the promise
  rejects afterwards, the handler unsets the provider and logs the error with
  \<open>console.error\<close>. Each of the three tree operations fails with the missing-provider
  error exactly when no provider is set.
\<close>

theorem delegate_rejection_and_missing_provider:
  "provider (update p s) = Some p
   \<and> trace (update p s) = trace s
   \<and> provider (update_settled p (Rejected err) (update p s)) = None
   \<and> trace (update_settled p (Rejected err) (update p s)) = trace s @ [ConsoleError err]
   \<and> (delegate_getTreeItem settle s x = Some (Inl MissingProvider)) = (provider s = None)
   \<and> (delegate_getChildren settle s x = Some (Inl MissingProvider)) = (provider s = None)
   \<and> (delegate_getParent settle s x = Some (Inl MissingProvider)) = (provider s = None)"
  by (simp add: update_def update_settled_def update_catch_def delegate_getTreeItem_def
      delegate_getChildren_def delegate_getParent_def await_provider_def assertProvider_def
      split: option.split settled.split)

section \<open>The orchestrator\<close>

text \<open>
  C8. When the validity check answers no, \<open>setInput\<close> is \<open>clearInput\<close>: "has result"
  is false, the input source is reset, the title is \<open>References\<close>, no input is current,
  the delegate holds a promise of the history provider and subscribes to the history once
  that promise is fulfilled. The "is active" flag keeps its value and no call goes to the
  host, so the view is not focused and nothing is resolved; the history is untouched.
\<close>

theorem invalid_position_is_clearInput:
  "setInput_validated inp False s = clearInput s
   \<and> ctxHasResult (setInput_validated inp False s) = Some False
   \<and> ctxInputSource (setInput_validated inp False s) = None
   \<and> tree_title (setInput_validated inp False s) = ''References''
   \<and> tree_input (setInput_validated inp False s) = None
   \<and> provider (setInput_validated inp False s) = Some (HistoryPromise (next_promise s))
   \<and> sessionDispoables (update_settled (HistoryPromise (next_promise s))
         (Fulfilled HistoryProvider) (setInput_validated inp False s)) = Some HistoryProvider
   \<and> ctxIsActive (setInput_validated inp False s) = ctxIsActive s
   \<and> trace (setInput_validated inp False s) = trace s
   \<and> inputs (setInput_validated inp False s) = inputs s"
  by (simp add: setInput_validated_def clearInput_def dispose_session_def update_def
      update_settled_def update_then_def Let_def split: option.split)

lemma superseded_facts:
  "tree_input superseded_state = Some ex_B"
  "provider superseded_state = Some (ModelPromise 1)"
  "tree_title superseded_state = ''References''"
  "inputs superseded_state = []"
  by (simp_all add: ex_defs step_defs Let_def)

text \<open>
  C3. When the resolution of the input that is still current is fulfilled with an empty
  model, the state is the one \<open>clearInput\<close> produces from the state at that moment:
  title, "has result", input source, message, the delegate's promise and the unset input
  are those of \<open>clearInput\<close>. The history map is unchanged and no document is opened
  for a history entry.
\<close>

theorem empty_result_is_clearInput:
  assumes "model_empty model" and "is_current s inp"
  shows "resolve_settled inp pid (Fulfilled model) s = clearInput s
   \<and> tree_title (resolve_settled inp pid (Fulfilled model) s) = ''References''
   \<and> ctxHasResult (resolve_settled inp pid (Fulfilled model) s) = Some False
   \<and> ctxInputSource (resolve_settled inp pid (Fulfilled model) s) = None
   \<and> tree_message (resolve_settled inp pid (Fulfilled model) s)
       = Some (if history_size s = 0 then ''No results.''
               else ''No results. Try running a previous search again:'')
   \<and> provider (resolve_settled inp pid (Fulfilled model) s)
       = Some (HistoryPromise (next_promise s))
   \<and> tree_input (resolve_settled inp pid (Fulfilled model) s) = None
   \<and> inputs (resolve_settled inp pid (Fulfilled model) s) = inputs s
   \<and> trace (resolve_settled inp pid (Fulfilled model) s) = trace s"
  using assms
  by (simp add: resolve_settled_def setInput_resolved_def clearInput_def dispose_session_def
      update_def update_then_def history_size_def Let_def split: option.split)

text \<open>
  An instance of C3: B is current with its resolution pending on promise 1, and the
  resolution delivers an empty model.
\<close>

theorem empty_result_is_clearInput_witness:
  "model_empty (ex_model\<lparr>model_empty := True\<rparr>)
   \<and> is_current superseded_state ex_B
   \<and> resolve_settled ex_B 1 (Fulfilled (ex_model\<lparr>model_empty := True\<rparr>)) superseded_state
       = clearInput superseded_state
   \<and> tree_title (resolve_settled ex_B 1 (Fulfilled (ex_model\<lparr>model_empty := True\<rparr>))
        superseded_state) = ''References''
   \<and> inputs (resolve_settled ex_B 1 (Fulfilled (ex_model\<lparr>model_empty := True\<rparr>))
        superseded_state) = []"
proof -
  have m: "model_empty (ex_model\<lparr>model_empty := True\<rparr>)" by simp
  have c: "is_current superseded_state ex_B"
    by (simp add: is_current_def superseded_facts)
  have i: "inputs superseded_state = []"
    by (simp add: superseded_facts)
  show ?thesis
    using empty_result_is_clearInput [OF m c, of 1]
    by (simp add: c i clearInput_def dispose_session_def update_def Let_def
        split: option.split)
qed

text \<open>
  A superseded resolution that is fulfilled changes nothing, as long as the delegate has
  moved on to another promise; one that is rejected unsets the delegate's provider and
  logs the error, whatever the current input is.
\<close>

lemma stale_fulfilled_no_effect:
  assumes "\<not> is_current s inp" and "provider s \<noteq> Some (ModelPromise pid)"
  shows "resolve_settled inp pid (Fulfilled model) s = s"
  using assms by (simp add: resolve_settled_def setInput_resolved_def update_then_def)

lemma stale_rejected_effect:
  "resolve_settled inp pid (Rejected err) s
     = s\<lparr>provider := None, trace := trace s @ [ConsoleError err]\<rparr>"
  by (simp add: resolve_settled_def update_catch_def)

text \<open>
  C1. \<open>setInput(A)\<close> then \<open>setInput(B)\<close> have both passed their checks, so B is
  current and the delegate holds B's promise. A's resolution is then rejected: the
  delegate's rejection handler has no "still current" test, so it unsets the provider that
  B installed and logs A's error. From then on the tree operations fail with the
  missing-provider error, and when B's resolution is fulfilled the delegate does not
  subscribe to B's provider.
\<close>

theorem stale_rejection_unsets_provider:
  "\<not> is_current superseded_state ex_A
   \<and> provider superseded_state = Some (ModelPromise 1)
   \<and> provider (resolve_settled ex_A 0 (Rejected ''boom'') superseded_state) = None
   \<and> trace (resolve_settled ex_A 0 (Rejected ''boom'') superseded_state)
       = trace superseded_state @ [ConsoleError ''boom'']
   \<and> delegate_getChildren (\<lambda>p. Some (Fulfilled (ModelProvider 7)))
         (resolve_settled ex_A 0 (Rejected ''boom'') superseded_state) ()
       = Some (Inl MissingProvider)
   \<and> sessionDispoables (resolve_settled ex_B 1 (Fulfilled ex_model)
         (resolve_settled ex_A 0 (Rejected ''boom'') superseded_state)) = None"
  by (simp add: ex_defs step_defs Let_def delegate_getChildren_def await_provider_def
      assertProvider_def)

section \<open>Commands on history items\<close>

text \<open>
  C6, as the code has it. The command attached to the tree item of a history entry is
  \<open>_references-view.showHistoryItem\<close>: activating the item opens the item's document at
  the tracked position and leaves the history map and the current input alone. The
  re-run action is what the command \<open>references-view.refind\<close> and a pick from the
  history do: the item is removed from the map and \<open>setInput\<close> is called with
  \<open>input.with\<close> of the tracked position.
\<close>

theorem activation_shows_history_item:
  "activate h (getTreeItem item) s = showHistoryItem h item s
   \<and> inputs (activate h (getTreeItem item) s) = inputs s
   \<and> tree_input (activate h (getTreeItem item) s) = tree_input s
   \<and> trace (activate h (getTreeItem item) s)
       = trace s @ [VscodeOpen (uri (input item))
                      (tracked_position h item, tracked_position h item)]
   \<and> executeCommand h ''references-view.refind'' [ItemArg item] s
       = setInput (input_with h (input item) (tracked_position h item))
           (s\<lparr>inputs := Map_delete (key item) (inputs s)\<rparr>)
   \<and> pickFromHistory_picked h (Some item) s
       = setInput (input_with h (input item) (tracked_position h item))
           (s\<lparr>inputs := Map_delete (key item) (inputs s)\<rparr>)"
  by (simp add: activate_def getTreeItem_def executeCommand_def showHistoryItem_def
      reRunHistoryItem_def pickFromHistory_picked_def Let_def)

text \<open>
  C6 as it is worded fails: on the history that holds A's item, activating the item keeps
  the item in the map and only opens fileA, while the re-run action empties the map and
  starts the validity check of \<open>setInput\<close>.
\<close>

theorem activation_is_not_rerun:
  "activate ex_host (getTreeItem ex_item) ex_history_state
      \<noteq> reRunHistoryItem ex_host ex_item ex_history_state
   \<and> inputs (activate ex_host (getTreeItem ex_item) ex_history_state)
      = [(key ex_item, ex_item)]
   \<and> trace (activate ex_host (getTreeItem ex_item) ex_history_state)
      = [VscodeOpen ex_fileA ((1, 2), (1, 2))]
   \<and> inputs (reRunHistoryItem ex_host ex_item ex_history_state) = []
   \<and> trace (reRunHistoryItem ex_host ex_item ex_history_state)
      = [IsValidRequestPosition ex_fileA (1, 2)]"
proof -
  have 1: "inputs (activate ex_host (getTreeItem ex_item) ex_history_state)
      = [(key ex_item, ex_item)]"
    by (simp add: activate_def getTreeItem_def executeCommand_def showHistoryItem_def
        ex_history_state_def ex_item_def add_opened_def Uri_fsPath_def start_state_def Map_delete_def Let_def)
  have 2: "inputs (reRunHistoryItem ex_host ex_item ex_history_state) = []"
    by (simp add: inputs_reRun ex_history_state_def ex_item_def inputs_add_opened
        start_state_def Map_delete_def)
  have 3: "trace (activate ex_host (getTreeItem ex_item) ex_history_state)
      = [VscodeOpen ex_fileA ((1, 2), (1, 2))]"
    by (simp add: activate_def getTreeItem_def executeCommand_def showHistoryItem_def
        tracked_position_def ex_history_state_def ex_item_def add_opened_def Uri_fsPath_def add_item_def
        new_HistoryItem_def ex_host_def ex_doc_def ex_A_def start_state_def Let_def)
  have 4: "trace (reRunHistoryItem ex_host ex_item ex_history_state)
      = [IsValidRequestPosition ex_fileA (1, 2)]"
    by (simp add: reRunHistoryItem_def setInput_def
        tracked_position_def ex_history_state_def ex_item_def add_opened_def Uri_fsPath_def add_item_def
        new_HistoryItem_def ex_host_def ex_doc_def ex_A_def start_state_def Let_def)
  from 1 2 have "activate ex_host (getTreeItem ex_item) ex_history_state
      \<noteq> reRunHistoryItem ex_host ex_item ex_history_state" by auto
  with 1 2 3 4 show ?thesis by simp
qed

text \<open>
  C7. When \<open>guessedTrackedPosition\<close> of the item's anchor finds nothing, the re-run
  action removes the item and calls \<open>setInput\<close> with \<open>input.with\<close> of the stored
  position, and the show-history-item command opens the document with the empty range at
  the stored position.
\<close>

theorem reanchor_fallback:
  assumes "guessedTrackedPosition h (anchor item) = None"
  shows "reRunHistoryItem h item s
           = setInput (input_with h (input item) (position (input item)))
               (s\<lparr>inputs := Map_delete (key item) (inputs s)\<rparr>)
         \<and> executeCommand h ''_references-view.showHistoryItem'' [ItemArg item] s
           = s\<lparr>trace := trace s @ [VscodeOpen (uri (input item))
                                     (position (input item), position (input item))]\<rparr>"
  using assms
  by (simp add: reRunHistoryItem_def executeCommand_def showHistoryItem_def
      tracked_position_def Let_def)

text \<open>
  An instance of C7: the anchor of A's item finds nothing, and both actions use A's stored
  position (1, 2).
\<close>

theorem reanchor_fallback_witness:
  "guessedTrackedPosition ex_host (anchor ex_item) = None
   \<and> trace (reRunHistoryItem ex_host ex_item ex_history_state)
       = [IsValidRequestPosition ex_fileA (1, 2)]
   \<and> trace (executeCommand ex_host ''_references-view.showHistoryItem'' [ItemArg ex_item]
         ex_history_state) = [VscodeOpen ex_fileA ((1, 2), (1, 2))]"
proof -
  have g: "guessedTrackedPosition ex_host (anchor ex_item) = None"
    by (simp add: ex_host_def)
  show ?thesis
    using reanchor_fallback [OF g, of ex_history_state]
    by (simp add: g setInput_def ex_history_state_def ex_item_def add_opened_def Uri_fsPath_def add_item_def
        new_HistoryItem_def ex_host_def ex_doc_def ex_A_def start_state_def Let_def)
qed

end
